theory Spec2Isabelle
  imports Complex_Main
begin

section \<open>Data model of \<open>coherent_rates/system.py\<close>\<close>

text \<open>
  Python floats (IEEE doubles) are modelled by \<^typ>\<open>real\<close> and numpy's
  \<open>complex128\<close> arrays by \<^typ>\<open>complex list\<close>: the theorems below are
  about the formulas the code evaluates, in exact arithmetic. Python ints are
  \<^typ>\<open>int\<close>. The 1-tuples \<open>shape\<close> and \<open>resolution\<close> (type
  \<open>tuple[int]\<close>) are modelled by their only component, so \<open>shape[0]\<close>
  is \<open>shape\<close>.
\<close>

datatype error = IndexError | ValueError | ZeroDivisionError | RuntimeError

record PeriodicSystem =
  system_id :: string
  barrier_energy :: real
  lattice_constant :: real
  mass :: real

record PeriodicSystemConfig =
  shape :: int
  resolution :: int
  n_bands :: int
  temperature :: real

text \<open>
  The basis classes of the basis library that \<open>system.py\<close> constructs.
  Each constructor keeps the arguments in the order of the Python call.
  \<open>TransformedPositionBasis1d delta_x n fundamental_n\<close>,
  \<open>EvenlySpacedTransformedPositionBasis delta_x n step offset\<close>,
  \<open>EvenlySpacedBasis n step offset\<close>.
\<close>

datatype axis =
    FundamentalTransformedPositionBasis1d "real list" int
  | TransformedPositionBasis1d "real list" int int
  | EvenlySpacedTransformedPositionBasis "real list" int int int
  | FundamentalTransformedPositionBasis "real list" int
  | FundamentalPositionBasis "real list" int
  | FundamentalBasis int
  | EvenlySpacedBasis int int int

text \<open>
  Modelled from the spec: the properties \<open>n\<close>, \<open>fundamental_n\<close> and
  \<open>delta_x\<close> of the library's basis classes, which are not part of the
  repository. A fundamental basis has \<open>fundamental_n = n\<close>; an evenly spaced
  basis picks every \<open>step\<close>-th of \<open>n * step\<close> fundamental points
  (the spec's "count, step multiplier, offset"); line 169 of the source relies
  on \<open>fundamental_n\<close> being the new size and \<open>n\<close> the old one.
\<close>

fun axis_n :: "axis \<Rightarrow> int" where
  "axis_n (FundamentalTransformedPositionBasis1d dx n) = n"
| "axis_n (TransformedPositionBasis1d dx n fn) = n"
| "axis_n (EvenlySpacedTransformedPositionBasis dx n step offset) = n"
| "axis_n (FundamentalTransformedPositionBasis dx n) = n"
| "axis_n (FundamentalPositionBasis dx n) = n"
| "axis_n (FundamentalBasis n) = n"
| "axis_n (EvenlySpacedBasis n step offset) = n"

fun axis_fundamental_n :: "axis \<Rightarrow> int" where
  "axis_fundamental_n (FundamentalTransformedPositionBasis1d dx n) = n"
| "axis_fundamental_n (TransformedPositionBasis1d dx n fn) = fn"
| "axis_fundamental_n (EvenlySpacedTransformedPositionBasis dx n step offset) = n * step"
| "axis_fundamental_n (FundamentalTransformedPositionBasis dx n) = n"
| "axis_fundamental_n (FundamentalPositionBasis dx n) = n"
| "axis_fundamental_n (FundamentalBasis n) = n"
| "axis_fundamental_n (EvenlySpacedBasis n step offset) = n * step"

fun axis_delta_x :: "axis \<Rightarrow> real list" where
  "axis_delta_x (FundamentalTransformedPositionBasis1d dx n) = dx"
| "axis_delta_x (TransformedPositionBasis1d dx n fn) = dx"
| "axis_delta_x (EvenlySpacedTransformedPositionBasis dx n step offset) = dx"
| "axis_delta_x (FundamentalTransformedPositionBasis dx n) = dx"
| "axis_delta_x (FundamentalPositionBasis dx n) = dx"
| "axis_delta_x (FundamentalBasis n) = []"
| "axis_delta_x (EvenlySpacedBasis n step offset) = []"

text \<open>
  \<open>TupleBasis(axis)\<close> is a one-axis product basis; \<open>basis[0]\<close> is its
  axis and \<open>basis.n\<close> the product of the sizes of its axes.
\<close>

datatype tuple_basis = TupleBasis axis

fun tuple_axis0 :: "tuple_basis \<Rightarrow> axis" where
  "tuple_axis0 (TupleBasis a) = a"

fun tuple_n :: "tuple_basis \<Rightarrow> int" where
  "tuple_n (TupleBasis a) = axis_n a"

text \<open>
  The dictionaries \<open>{"basis": ..., "data": ...}\<close> the code uses for a
  Potential and for a StateVector.
\<close>

record basis_data =
  basis :: tuple_basis
  data :: "complex list"

section \<open>Potential builder\<close>

text \<open>numpy broadcasting of a scalar over an array, on either side.\<close>

definition scalar_times :: "complex \<Rightarrow> complex list \<Rightarrow> complex list" where
  "scalar_times s xs = map (\<lambda>x. s * x) xs"

definition times_scalar :: "complex list \<Rightarrow> complex \<Rightarrow> complex list" where
  "times_scalar xs s = map (\<lambda>x. x * s) xs"

definition times_scalar_inv :: "complex list \<Rightarrow> real \<Rightarrow> complex list" where
  "times_scalar_inv xs s = map (\<lambda>x. x / of_real s) xs"

definition get_potential :: "PeriodicSystem \<Rightarrow> basis_data" where
  "get_potential system =
     (let delta_x = sqrt 3 * lattice_constant system / 2;
          ax = FundamentalTransformedPositionBasis1d [delta_x] 3;
          vector = times_scalar
                     (scalar_times (of_real (0.25 * barrier_energy system)) [2, -1, -1])
                     (of_real (sqrt 3))
      in \<lparr>basis = TupleBasis ax, data = vector\<rparr>)"

text \<open>
  The functions of the basis library and of scipy that \<open>system.py\<close> calls
  and whose code is outside the repository are parameters of the model, so
  every theorem holds for whatever they compute:
  \<^item> \<open>convert_vector\<close>: the map on coefficients behind
    \<open>convert_potential_to_basis\<close>, from one basis to another;
  \<^item> \<open>total_surface_hamiltonian potential mass bloch_fraction\<close>;
  \<^item> \<open>generate_wavepacket hamiltonian_generator save_bands list_basis\<close>.
  Each may raise, so each returns a sum.
\<close>

record ('op, 'w) library =
  convert_vector :: "tuple_basis \<Rightarrow> tuple_basis \<Rightarrow> complex list \<Rightarrow> error + complex list"
  total_surface_hamiltonian :: "basis_data \<Rightarrow> real \<Rightarrow> real list \<Rightarrow> error + 'op"
  generate_wavepacket :: "(real list \<Rightarrow> error + 'op) \<Rightarrow> axis \<Rightarrow> tuple_basis \<Rightarrow> error + 'w"

text \<open>
  Modelled from the spec: \<open>convert_potential_to_basis\<close> of the basis library
  ("re-expresses the potential", "converts to the new basis"): the result is
  on the requested basis, its data the library's conversion of the old data.
\<close>

definition convert_potential_to_basis ::
  "('op, 'w) library \<Rightarrow> basis_data \<Rightarrow> tuple_basis \<Rightarrow> error + basis_data" where
  "convert_potential_to_basis lib potential b =
     (case convert_vector lib (basis potential) b (data potential) of
        Inl e \<Rightarrow> Inl e
      | Inr d \<Rightarrow> Inr \<lparr>basis = b, data = d\<rparr>)"

text \<open>
  Modelled from the spec: the library's \<open>stacked_basis_as_fundamental_momentum_basis\<close>
  and \<open>stacked_basis_as_fundamental_position_basis\<close>, which replace each axis
  by the fundamental momentum (position) basis of the same \<open>delta_x\<close> with
  \<open>fundamental_n\<close> points, and \<open>fundamental_n\<close> of a one-axis tuple basis.
\<close>

fun stacked_basis_as_fundamental_momentum_basis :: "tuple_basis \<Rightarrow> tuple_basis" where
  "stacked_basis_as_fundamental_momentum_basis (TupleBasis a) =
     TupleBasis (FundamentalTransformedPositionBasis (axis_delta_x a) (axis_fundamental_n a))"

fun stacked_basis_as_fundamental_position_basis :: "tuple_basis \<Rightarrow> tuple_basis" where
  "stacked_basis_as_fundamental_position_basis (TupleBasis a) =
     TupleBasis (FundamentalPositionBasis (axis_delta_x a) (axis_fundamental_n a))"

fun tuple_fundamental_n :: "tuple_basis \<Rightarrow> int" where
  "tuple_fundamental_n (TupleBasis a) = axis_fundamental_n a"

text \<open>
  Python's \<open>/\<close> on two ints raises on a zero divisor. (\<open>np.sqrt\<close> of a
  negative float is \<open>nan\<close> with a warning; the model's \<^term>\<open>sqrt\<close> is
  the real one, and no theorem below takes the root of a negative number.)
\<close>

definition py_truediv :: "int \<Rightarrow> int \<Rightarrow> error + real" where
  "py_truediv a b = (if b = 0 then Inl ZeroDivisionError else Inr (real_of_int a / real_of_int b))"

definition get_interpolated_potential ::
  "('op, 'w) library \<Rightarrow> PeriodicSystem \<Rightarrow> int \<Rightarrow> error + basis_data" where
  "get_interpolated_potential lib system resolution0 =
     (let potential = get_potential system;
          old = tuple_axis0 (basis potential);
          b = TupleBasis (TransformedPositionBasis1d (axis_delta_x old) (axis_n old) resolution0)
      in case py_truediv resolution0 (axis_n old) of
           Inl e \<Rightarrow> Inl e
         | Inr q \<Rightarrow>
             (let scaled_potential = times_scalar (data potential) (of_real (sqrt q))
              in convert_potential_to_basis lib
                   \<lparr>basis = b, data = scaled_potential\<rparr>
                   (stacked_basis_as_fundamental_momentum_basis b)))"

definition get_extended_interpolated_potential ::
  "('op, 'w) library \<Rightarrow> PeriodicSystem \<Rightarrow> int \<Rightarrow> int \<Rightarrow> error + basis_data" where
  "get_extended_interpolated_potential lib system shape0 resolution0 =
     (case get_interpolated_potential lib system resolution0 of
        Inl e \<Rightarrow> Inl e
      | Inr interpolated \<Rightarrow>
          (let old = tuple_axis0 (basis interpolated);
               b = TupleBasis (EvenlySpacedTransformedPositionBasis
                     (map (\<lambda>d. d * real_of_int shape0) (axis_delta_x old))
                     (axis_n old) shape0 0)
           in case py_truediv (tuple_fundamental_n b) (axis_n old) of
                Inl e \<Rightarrow> Inl e
              | Inr q \<Rightarrow>
                  Inr \<lparr>basis = b,
                       data = times_scalar (data interpolated) (of_real (sqrt q))\<rparr>))"

section \<open>Hamiltonian assembler\<close>

text \<open>\<open>_get_full_hamiltonian\<close> of the source (an identifier cannot start with an underscore).\<close>

definition get_full_hamiltonian ::
  "('op, 'w) library \<Rightarrow> PeriodicSystem \<Rightarrow> int \<Rightarrow> int \<Rightarrow> real list option \<Rightarrow> error + 'op" where
  "get_full_hamiltonian lib system shape0 resolution0 bloch_fraction =
     (let bloch_fraction' = (case bloch_fraction of None \<Rightarrow> [0] | Some bf \<Rightarrow> bf)
      in case get_extended_interpolated_potential lib system shape0 resolution0 of
           Inl e \<Rightarrow> Inl e
         | Inr potential \<Rightarrow>
             (case convert_potential_to_basis lib potential
                     (stacked_basis_as_fundamental_position_basis (basis potential)) of
                Inl e \<Rightarrow> Inl e
              | Inr converted \<Rightarrow>
                  total_surface_hamiltonian lib converted (mass system) bloch_fraction'))"

definition hamiltonian_generator ::
  "('op, 'w) library \<Rightarrow> PeriodicSystem \<Rightarrow> PeriodicSystemConfig \<Rightarrow> real list \<Rightarrow> error + 'op" where
  "hamiltonian_generator lib system config bloch_fraction =
     get_full_hamiltonian lib system 1 (resolution config) (Some bloch_fraction)"




section \<open>State sampler\<close>

text \<open>
  \<open>np.zeros(n)\<close> raises on a negative size; \<open>range(n)\<close> is empty for
  \<open>n \<le> 0\<close>; \<open>int(x)\<close> truncates a float towards zero.
\<close>

definition np_zeros :: "int \<Rightarrow> error + complex list" where
  "np_zeros n = (if n < 0 then Inl ValueError else Inr (replicate (nat n) 0))"

definition py_range :: "int \<Rightarrow> nat list" where
  "py_range n = [0..<nat n]"

definition py_int :: "real \<Rightarrow> int" where
  "py_int x = (if 0 \<le> x then \<lfloor>x\<rfloor> else \<lceil>x\<rceil>)"

text \<open>
  The loop of \<open>get_step_state\<close>: \<open>data[i] = 1 / np.sqrt(n_non_zero)\<close> for
  each \<open>i\<close> of the range; numpy raises IndexError on an index past the end.
\<close>

fun step_loop :: "int \<Rightarrow> nat list \<Rightarrow> complex list \<Rightarrow> error + complex list" where
  "step_loop n_non_zero [] d = Inr d"
| "step_loop n_non_zero (i # is) d =
     (if i < length d
      then step_loop n_non_zero is (d[i := of_real (1 / sqrt (real_of_int n_non_zero))])
      else Inl IndexError)"

definition get_step_state ::
  "('op, 'w) library \<Rightarrow> PeriodicSystem \<Rightarrow> PeriodicSystemConfig \<Rightarrow> real option
     \<Rightarrow> error + basis_data" where
  "get_step_state lib system config fraction =
     (case get_extended_interpolated_potential lib system (shape config) (resolution config) of
        Inl e \<Rightarrow> Inl e
      | Inr potential \<Rightarrow>
          (let b = stacked_basis_as_fundamental_position_basis (basis potential)
           in case np_zeros (tuple_n b) of
                Inl e \<Rightarrow> Inl e
              | Inr zeros \<Rightarrow>
                  (let n_non_zero =
                         (case fraction of
                            None \<Rightarrow> 1
                          | Some f \<Rightarrow> py_int (f * real_of_int (tuple_n b)))
                   in case step_loop n_non_zero (py_range n_non_zero) zeros of
                        Inl e \<Rightarrow> Inl e
                      | Inr d \<Rightarrow> Inr \<lparr>basis = b, data = d\<rparr>)))"

text \<open>
  The loop of \<open>get_gaussian_state\<close>:
  \<open>data[i] = -np.square(i - size / 2) / (2 * width * width)\<close>.
\<close>

fun gaussian_loop :: "int \<Rightarrow> real \<Rightarrow> nat list \<Rightarrow> complex list \<Rightarrow> error + complex list" where
  "gaussian_loop size0 width [] d = Inr d"
| "gaussian_loop size0 width (i # is) d =
     (if i < length d
      then gaussian_loop size0 width is
             (d[i := of_real (- (real i - real_of_int size0 / 2)\<^sup>2 / (2 * width * width))])
      else Inl IndexError)"

text \<open>
  Modelled from the spec: the library's \<open>calculate_normalization\<close>, the
  squared L2 norm of the coefficient vector ("unit L2 normalization ...
  enforced by dividing by sqrt of computed normalization").
\<close>

definition calculate_normalization :: "basis_data \<Rightarrow> real" where
  "calculate_normalization state = (\<Sum>c\<leftarrow>data state. (cmod c)\<^sup>2)"

definition get_gaussian_state ::
  "('op, 'w) library \<Rightarrow> PeriodicSystem \<Rightarrow> PeriodicSystemConfig \<Rightarrow> real
     \<Rightarrow> error + basis_data" where
  "get_gaussian_state lib system config fraction =
     (case get_extended_interpolated_potential lib system (shape config) (resolution config) of
        Inl e \<Rightarrow> Inl e
      | Inr potential \<Rightarrow>
          (let b = stacked_basis_as_fundamental_position_basis (basis potential);
               size0 = tuple_n b;
               width = real_of_int size0 * fraction
           in case np_zeros (tuple_n b) of
                Inl e \<Rightarrow> Inl e
              | Inr zeros \<Rightarrow>
                  (case gaussian_loop size0 width (py_range size0) zeros of
                     Inl e \<Rightarrow> Inl e
                   | Inr d \<Rightarrow>
                       (let d' = map exp d;
                            initial_state = \<lparr>basis = b, data = d'\<rparr>
                        in Inr (initial_state
                                 \<lparr>data := times_scalar_inv (data initial_state)
                                    (sqrt (calculate_normalization initial_state))\<rparr>)))))"

text \<open>
  The envelope of the claim about \<open>get_gaussian_state\<close>, in the claim's
  words: the exponent of a Gaussian centred at \<open>N / 2\<close> with width
  \<open>fraction * N\<close>.
\<close>

definition gaussian_exponent :: "int \<Rightarrow> real \<Rightarrow> nat \<Rightarrow> real" where
  "gaussian_exponent N fraction i =
     - (real i - real_of_int N / 2)\<^sup>2 / (2 * (fraction * real_of_int N)\<^sup>2)"

section \<open>Gaussian fit\<close>

text \<open>
  A ValueList: the \<open>times\<close> array of its time basis and its data.
\<close>

record value_list =
  basis_times :: "real list"
  value_data :: "complex list"

definition gauss :: "real \<Rightarrow> real \<Rightarrow> real \<Rightarrow> real" where
  "gauss x a b = a * exp (- 1 * (x / b)\<^sup>2 / 2)"

text \<open>
  \<open>scipy.optimize.curve_fit\<close> is a parameter: given the model function, the
  x data and the y data it returns the two fitted parameters and the two by
  two covariance matrix, or raises when the fit does not converge.
  \<open>get_measured_data(data, "abs")\<close> is the magnitude of each value.
\<close>

type_synonym curve_fit_result = "(real \<times> real) \<times> ((real \<times> real) \<times> (real \<times> real))"

definition get_measured_data_abs :: "complex list \<Rightarrow> real list" where
  "get_measured_data_abs d = map cmod d"

definition get_gaussian_fit ::
  "((real \<Rightarrow> real \<Rightarrow> real \<Rightarrow> real) \<Rightarrow> real list \<Rightarrow> real list \<Rightarrow> error + curve_fit_result)
     \<Rightarrow> value_list \<Rightarrow> error + (real \<times> real \<times> real \<times> real)" where
  "get_gaussian_fit curve_fit vals =
     (let xdata = basis_times vals;
          xdata1 = map real [0..<length xdata];
          ydata = get_measured_data_abs (value_data vals)
      in case curve_fit gauss xdata1 ydata of
           Inl e \<Rightarrow> Inl e
         | Inr (parameters, covariance) \<Rightarrow>
             (let fit_A = fst parameters;
                  fit_B = snd parameters
              in if 1 < length xdata
                 then (let dt = xdata ! 1
                       in Inr (fit_A,
                               sqrt (fst (fst covariance)),
                               fit_B * dt,
                               sqrt (snd (snd covariance)) * dt))
                 else Inl IndexError))"

section \<open>Concrete instances\<close>

text \<open>
  An instance of the library parameters for closed examples: the conversion
  keeps the coefficients and the other two functions return their arguments.
  Together with a small system and a configuration of one cell of two points.
\<close>

definition recording_library ::
  "(basis_data \<times> real \<times> real list, axis \<times> tuple_basis) library" where
  "recording_library =
     \<lparr>convert_vector = (\<lambda>b b' d. Inr d),
      total_surface_hamiltonian = (\<lambda>potential m bloch_fraction. Inr (potential, m, bloch_fraction)),
      generate_wavepacket = (\<lambda>generator save_bands list_basis. Inr (save_bands, list_basis))\<rparr>"

definition unit_system :: PeriodicSystem where
  "unit_system = \<lparr>system_id = ''unit'', barrier_energy = 4, lattice_constant = 2, mass = 1\<rparr>"

definition small_config :: PeriodicSystemConfig where
  "small_config = \<lparr>shape = 1, resolution = 2, n_bands = 1, temperature = 155\<rparr>"

text \<open>
  A curve fit that reports amplitude 2 and decay 10 (in index units) with unit
  variances, whatever the data.
\<close>

definition fixed_curve_fit ::
  "(real \<Rightarrow> real \<Rightarrow> real \<Rightarrow> real) \<Rightarrow> real list \<Rightarrow> real list \<Rightarrow> error + curve_fit_result" where
  "fixed_curve_fit f xdata ydata = Inr ((2, 10), ((1, 0), (0, 1)))"

section \<open>Properties\<close>

subsection \<open>The basis of the extended potential\<close>

lemma get_interpolated_potential_basis:
  assumes "get_interpolated_potential lib system r = Inr p"
  shows "basis p = TupleBasis (FundamentalTransformedPositionBasis
                     [sqrt 3 * lattice_constant system / 2] r)"
  using assms
  by (auto simp: get_interpolated_potential_def get_potential_def Let_def py_truediv_def
        convert_potential_to_basis_def split: sum.splits if_splits)

lemma get_extended_interpolated_potential_basis:
  assumes "get_extended_interpolated_potential lib system s r = Inr p"
  shows "basis p = TupleBasis (EvenlySpacedTransformedPositionBasis
                     [sqrt 3 * lattice_constant system / 2 * real_of_int s] r s 0)"
    and "r \<noteq> 0"
  using assms get_interpolated_potential_basis[of lib system r]
  by (auto simp: get_extended_interpolated_potential_def Let_def py_truediv_def
        split: sum.splits if_splits)

lemma extended_position_basis_n:
  assumes "get_extended_interpolated_potential lib system s r = Inr p"
  shows "tuple_n (stacked_basis_as_fundamental_position_basis (basis p)) = r * s"
  using get_extended_interpolated_potential_basis(1)[OF assms] by simp

lemma step_loop_append:
  "step_loop k (xs @ ys) d =
     (case step_loop k xs d of Inl e \<Rightarrow> Inl e | Inr d' \<Rightarrow> step_loop k ys d')"
  by (induction xs arbitrary: d) auto

lemma step_loop_length:
  "step_loop k xs d = Inr d' \<Longrightarrow> length d' = length d"
  by (induction xs arbitrary: d) (auto split: if_splits)

lemma step_loop_upt:
  "n \<le> length d \<Longrightarrow>
   step_loop k [0..<n] d = Inr (replicate n (of_real (1 / sqrt (real_of_int k))) @ drop n d)"
proof (induction n)
  case 0
  then show ?case by simp
next
  case (Suc n)
  then have "n < length d" by simp
  with Suc show ?case
    apply (simp add: step_loop_append list_update_append)
    by (metis Cons_nth_drop_Suc append.assoc list_update_code(2) replicate_append_same append_Cons append_Nil)
qed

lemma step_loop_overrun:
  "length d < n \<Longrightarrow> step_loop k [0..<n] d = Inl IndexError"
proof -
  assume a: "length d < n"
  then have "[0..<n] = [0..<length d] @ (length d # [Suc (length d)..<n])"
    by (metis upt_add_eq_append upt_conv_Cons le_add_diff_inverse less_imp_le_nat zero_le)
  then show ?thesis
    by (simp add: step_loop_append step_loop_upt)
qed

text \<open>
  Claim C4. \<open>get_potential\<close> returns the three-term plane-wave potential
  whose coefficients are \<open>0.25 * barrier_energy * c * sqrt 3\<close> for
  \<open>c = 2, -1, -1\<close>, on a one-axis transformed-position basis of three points
  with \<open>delta_x = sqrt 3 * lattice_constant / 2\<close>; the result is a function
  of the barrier energy and the lattice constant only, so two systems that
  agree on them (in particular the same system twice) give the same potential.
\<close>

theorem get_potential_three_term:
  "get_potential system =
     \<lparr>basis = TupleBasis (FundamentalTransformedPositionBasis1d
                 [sqrt 3 * lattice_constant system / 2] 3),
      data = map (\<lambda>c. of_real (0.25 * barrier_energy system * c * sqrt 3)) [2, -1, -1]\<rparr>
   \<and> axis_n (tuple_axis0 (basis (get_potential system))) = 3
   \<and> axis_fundamental_n (tuple_axis0 (basis (get_potential system))) = 3
   \<and> (\<forall>system'. barrier_energy system' = barrier_energy system
          \<and> lattice_constant system' = lattice_constant system
        \<longrightarrow> get_potential system' = get_potential system)"
  by (simp add: get_potential_def Let_def scalar_times_def times_scalar_def)

theorem get_potential_three_term_witness:
  "data (get_potential \<lparr>system_id = ''HNi'', barrier_energy = 4, lattice_constant = 2, mass = 1\<rparr>)
     = [complex_of_real (2 * sqrt 3), complex_of_real (- sqrt 3), complex_of_real (- sqrt 3)]
   \<and> get_potential \<lparr>system_id = ''other'', barrier_energy = 4, lattice_constant = 2, mass = 7\<rparr>
     = get_potential \<lparr>system_id = ''HNi'', barrier_energy = 4, lattice_constant = 2, mass = 1\<rparr>"
  using get_potential_three_term
    [of "\<lparr>system_id = ''HNi'', barrier_energy = 4, lattice_constant = 2, mass = 1\<rparr>"]
  by simp

subsection \<open>Step states\<close>

lemma sum_list_replicate_real: "sum_list (replicate n (x::real)) = real n * x"
  by (induction n) (auto simp: algebra_simps)

lemma recording_library_builds:
  "r \<noteq> 0 \<Longrightarrow> \<exists>p. get_extended_interpolated_potential recording_library system s r = Inr p"
  by (simp add: get_extended_interpolated_potential_def get_interpolated_potential_def
        get_potential_def convert_potential_to_basis_def recording_library_def
        py_truediv_def Let_def)

text \<open>
  Claim C9. When the library builds the extended potential, the basis size
  \<open>N = resolution * shape\<close> is not negative, \<open>0 \<le> fraction\<close> and
  \<open>int(fraction * N) = 0\<close>, \<open>get_step_state\<close> returns (it does not
  raise) the state on the fundamental position basis of \<open>N\<close> points whose
  coefficients are all zero: the loop body never runs, and the squared norm
  of the state is 0, not 1.
\<close>

theorem get_step_state_empty_fill:
  assumes "get_extended_interpolated_potential lib system (shape config) (resolution config)
             = Inr potential"
    and "0 \<le> resolution config * shape config"
    and "0 \<le> fraction"
    and "py_int (fraction * real_of_int (resolution config * shape config)) = 0"
  shows "\<exists>st. get_step_state lib system config (Some fraction) = Inr st
           \<and> basis st = stacked_basis_as_fundamental_position_basis (basis potential)
           \<and> tuple_n (basis st) = resolution config * shape config
           \<and> data st = replicate (nat (resolution config * shape config)) 0
           \<and> calculate_normalization st = 0"
  using assms extended_position_basis_n[OF assms(1)]
  by (simp add: get_step_state_def Let_def np_zeros_def py_range_def
        calculate_normalization_def sum_list_replicate_real)

theorem get_step_state_empty_fill_witness:
  "\<exists>st. get_step_state recording_library unit_system small_config (Some (1 / 4)) = Inr st
         \<and> data st = [0, 0] \<and> calculate_normalization st = 0"
proof -
  obtain p where p: "get_extended_interpolated_potential recording_library unit_system
                       (shape small_config) (resolution small_config) = Inr p"
    using recording_library_builds[of "resolution small_config"]
    by (auto simp: small_config_def)
  have h2: "0 \<le> resolution small_config * shape small_config"
    by (simp add: small_config_def)
  have h3: "(0::real) \<le> 1 / 4" by simp
  have h4: "py_int (1 / 4 * real_of_int (resolution small_config * shape small_config)) = 0"
    by (simp add: small_config_def py_int_def)
  show ?thesis
    using get_step_state_empty_fill[OF p h2 h3 h4]
    by (auto simp: small_config_def numeral_2_eq_2)
qed

text \<open>
  Claim C6, amended. Let \<open>n\<close> be 1 when \<open>fraction\<close> is None and
  \<open>int(fraction * N)\<close> otherwise. When the library builds the extended
  potential and \<open>1 \<le> n \<le> N\<close>, \<open>get_step_state\<close> returns the state
  whose first \<open>n\<close> coefficients are \<open>1 / sqrt n\<close> and whose other
  \<open>N - n\<close> coefficients are zero; its squared magnitudes sum to 1.
\<close>

theorem get_step_state_normalized:
  assumes "get_extended_interpolated_potential lib system (shape config) (resolution config)
             = Inr potential"
    and "n = (case fraction of None \<Rightarrow> 1
              | Some f \<Rightarrow> py_int (f * real_of_int (resolution config * shape config)))"
    and "1 \<le> n" and "n \<le> resolution config * shape config"
  shows "\<exists>st. get_step_state lib system config fraction = Inr st
           \<and> tuple_n (basis st) = resolution config * shape config
           \<and> data st = replicate (nat n) (of_real (1 / sqrt (real_of_int n)))
                        @ replicate (nat (resolution config * shape config - n)) 0
           \<and> calculate_normalization st = 1"
proof -
  let ?N = "resolution config * shape config"
  have n: "tuple_n (stacked_basis_as_fundamental_position_basis (basis potential)) = ?N"
    by (rule extended_position_basis_n[OF assms(1)])
  have le: "nat n \<le> length (replicate (nat ?N) (0::complex))"
    using assms(3,4) by simp
  have loop: "step_loop n (py_range n) (replicate (nat ?N) 0)
                = Inr (replicate (nat n) (of_real (1 / sqrt (real_of_int n)))
                        @ replicate (nat (?N - n)) 0)"
    unfolding py_range_def using step_loop_upt[OF le, of n] assms(3,4)
    by (simp add: nat_diff_distrib)
  have norm: "(\<Sum>c\<leftarrow>replicate (nat n) (complex_of_real (1 / sqrt (real_of_int n)))
                        @ replicate (nat (?N - n)) 0. (cmod c)\<^sup>2) = 1"
  proof -
    have "(cmod (complex_of_real (1 / sqrt (real_of_int n))))\<^sup>2 = 1 / real_of_int n"
      using assms(3) by (simp add: norm_divide power_divide real_sqrt_abs2)
    moreover have "real (nat n) = real_of_int n" using assms(3) by simp
    ultimately show ?thesis
      using assms(3) by (simp add: sum_list_replicate_real o_def)
  qed
  have nz: "(case fraction of None \<Rightarrow> 1
             | Some f \<Rightarrow> py_int (f * real_of_int
                 (tuple_n (stacked_basis_as_fundamental_position_basis (basis potential))))) = n"
    unfolding n using assms(2) by simp
  have nonneg: "\<not> ?N < 0" using assms(3,4) by simp
  have "get_step_state lib system config fraction
          = Inr \<lparr>basis = stacked_basis_as_fundamental_position_basis (basis potential),
                 data = replicate (nat n) (of_real (1 / sqrt (real_of_int n)))
                        @ replicate (nat (?N - n)) 0\<rparr>"
    by (simp add: get_step_state_def assms(1) Let_def np_zeros_def n nz nonneg loop)
  then show ?thesis
    using n norm by (simp add: calculate_normalization_def)
qed

theorem get_step_state_normalized_witness:
  "\<exists>st. get_step_state recording_library unit_system small_config (Some 1) = Inr st
         \<and> data st = [complex_of_real (1 / sqrt 2), complex_of_real (1 / sqrt 2)]
         \<and> calculate_normalization st = 1"
proof -
  obtain p where p: "get_extended_interpolated_potential recording_library unit_system
                       (shape small_config) (resolution small_config) = Inr p"
    using recording_library_builds[of "resolution small_config"]
    by (auto simp: small_config_def)
  have h2: "(2::int) = (case Some (1::real) of None \<Rightarrow> 1
              | Some f \<Rightarrow> py_int (f * real_of_int (resolution small_config * shape small_config)))"
    by (simp add: small_config_def py_int_def)
  have h3: "(1::int) \<le> 2" by simp
  have h4: "2 \<le> resolution small_config * shape small_config"
    by (simp add: small_config_def)
  show ?thesis
    using get_step_state_normalized[OF p h2 h3 h4]
    by (auto simp: small_config_def numeral_2_eq_2)
qed

text \<open>
  Claim C6 as stated has no upper bound on \<open>n\<close>: with \<open>N = 2\<close> and
  \<open>fraction = 2\<close> the fraction is positive and \<open>int(fraction * N) = 4\<close>,
  and the loop writes past the end of the array, so the call raises IndexError.
\<close>

theorem get_step_state_counterexample:
  "(0::real) < 2
   \<and> py_int (2 * real_of_int (resolution small_config * shape small_config)) = 4
   \<and> get_step_state recording_library unit_system small_config (Some 2) = Inl IndexError"
proof -
  have r: "py_range 4 = [0, 1, 2, 3]"
    by (simp add: py_range_def upt_rec)
  show ?thesis
    by (simp add: get_step_state_def get_extended_interpolated_potential_def
        get_interpolated_potential_def get_potential_def convert_potential_to_basis_def
        recording_library_def py_truediv_def Let_def small_config_def unit_system_def
        py_int_def np_zeros_def r numeral_2_eq_2)
qed

lemma get_step_state_overrun:
  assumes "get_extended_interpolated_potential lib system (shape config) (resolution config)
             = Inr potential"
    and "0 \<le> resolution config * shape config"
    and "n = (case fraction of None \<Rightarrow> 1
              | Some f \<Rightarrow> py_int (f * real_of_int (resolution config * shape config)))"
    and "resolution config * shape config < n"
  shows "get_step_state lib system config fraction = Inl IndexError"
proof -
  let ?N = "resolution config * shape config"
  have n: "tuple_n (stacked_basis_as_fundamental_position_basis (basis potential)) = ?N"
    by (rule extended_position_basis_n[OF assms(1)])
  have nz: "(case fraction of None \<Rightarrow> 1
             | Some f \<Rightarrow> py_int (f * real_of_int
                 (tuple_n (stacked_basis_as_fundamental_position_basis (basis potential))))) = n"
    unfolding n using assms(3) by simp
  have nonneg: "\<not> ?N < 0" using assms(2) by simp
  have "length (replicate (nat ?N) (0::complex)) < nat n"
    using assms(2,4) by simp
  from step_loop_overrun[OF this]
  have "step_loop n (py_range n) (replicate (nat ?N) 0) = Inl IndexError"
    by (simp add: py_range_def)
  then show ?thesis
    by (simp add: get_step_state_def assms(1) Let_def np_zeros_def n nz nonneg)
qed

subsection \<open>Gaussian states\<close>

lemma gaussian_loop_append:
  "gaussian_loop s w (xs @ ys) d =
     (case gaussian_loop s w xs d of Inl e \<Rightarrow> Inl e | Inr d' \<Rightarrow> gaussian_loop s w ys d')"
  by (induction xs arbitrary: d) auto

lemma gaussian_loop_upt:
  "n \<le> length d \<Longrightarrow>
   gaussian_loop s w [0..<n] d
     = Inr (map (\<lambda>i. of_real (- (real i - real_of_int s / 2)\<^sup>2 / (2 * w * w))) [0..<n]
            @ drop n d)"
proof (induction n)
  case 0
  then show ?case by simp
next
  case (Suc n)
  then have "n < length d" by simp
  with Suc show ?case
    by (simp add: gaussian_loop_append list_update_append Cons_nth_drop_Suc[symmetric]
          del: of_real_divide of_real_minus of_real_power)
qed

lemma sum_list_pos_real:
  assumes "xs \<noteq> []" and "\<And>x. x \<in> set xs \<Longrightarrow> 0 < f x"
  shows "0 < (\<Sum>x\<leftarrow>xs. (f x :: real))"
proof (cases xs)
  case Nil
  with assms(1) show ?thesis by simp
next
  case (Cons a ys)
  have "0 \<le> (\<Sum>x\<leftarrow>ys. f x)"
    by (rule sum_list_nonneg) (use assms(2) Cons in \<open>auto intro: less_imp_le\<close>)
  moreover have "0 < f a" using assms(2) Cons by simp
  ultimately show ?thesis using Cons by simp
qed

lemma normalized_sum:
  assumes "0 < (Z::real)" and "Z = (\<Sum>x\<leftarrow>xs. (g x)\<^sup>2)"
  shows "(\<Sum>x\<leftarrow>xs. (g x / sqrt Z)\<^sup>2) = 1"
proof -
  have "(\<Sum>x\<leftarrow>xs. (g x / sqrt Z)\<^sup>2) = (\<Sum>x\<leftarrow>xs. (g x)\<^sup>2 * (1 / Z))"
    using assms(1) by (simp add: power_divide)
  also have "\<dots> = (\<Sum>x\<leftarrow>xs. (g x)\<^sup>2) * (1 / Z)"
    by (simp only: sum_list_mult_const)
  finally show ?thesis using assms by simp
qed

lemma calculate_normalization_of_real:
  "calculate_normalization \<lparr>basis = b, data = map (\<lambda>i. complex_of_real (g i)) xs\<rparr>
     = (\<Sum>i\<leftarrow>xs. (g i)\<^sup>2)"
  by (simp add: calculate_normalization_def o_def)

text \<open>
  Claim C7. When the library builds the extended potential, the basis size
  \<open>N = resolution * shape\<close> is positive and \<open>0 < fraction\<close>,
  \<open>get_gaussian_state\<close> returns a state on the fundamental position basis of
  \<open>N\<close> points whose \<open>i\<close>-th coefficient is
  \<open>exp (- (i - N / 2)\<^sup>2 / (2 * (fraction * N)\<^sup>2))\<close> divided by \<open>sqrt Z\<close>,
  where \<open>Z > 0\<close> is the sum of the squares of these exponentials (the
  computed normalization); the squared magnitudes of the result sum to 1.
\<close>

theorem get_gaussian_state_normalized:
  assumes "get_extended_interpolated_potential lib system (shape config) (resolution config)
             = Inr potential"
    and "0 < resolution config * shape config"
    and "0 < fraction"
  shows "\<exists>st Z. get_gaussian_state lib system config fraction = Inr st
           \<and> tuple_n (basis st) = resolution config * shape config
           \<and> Z = (\<Sum>i\<leftarrow>[0..<nat (resolution config * shape config)].
                    (exp (gaussian_exponent (resolution config * shape config) fraction i))\<^sup>2)
           \<and> 0 < Z
           \<and> data st = map (\<lambda>i. of_real
                    (exp (gaussian_exponent (resolution config * shape config) fraction i) / sqrt Z))
                  [0..<nat (resolution config * shape config)]
           \<and> calculate_normalization st = 1"
proof -
  let ?N = "resolution config * shape config"
  let ?b = "stacked_basis_as_fundamental_position_basis (basis potential)"
  let ?e = "gaussian_exponent ?N fraction"
  let ?xs = "[0..<nat ?N]"
  define Z where "Z = (\<Sum>i\<leftarrow>?xs. (exp (?e i))\<^sup>2)"
  have n: "tuple_n ?b = ?N"
    by (rule extended_position_basis_n[OF assms(1)])
  have nonneg: "\<not> ?N < 0" using assms(2) by simp
  have e: "- (real i - real_of_int ?N / 2)\<^sup>2 / (2 * (real_of_int ?N * fraction) * (real_of_int ?N * fraction))
             = ?e i" for i
    by (simp add: gaussian_exponent_def power2_eq_square mult_ac)
  have loop: "gaussian_loop ?N (real_of_int ?N * fraction) (py_range ?N) (replicate (nat ?N) 0)
                = Inr (map (\<lambda>i. complex_of_real (?e i)) ?xs)"
    unfolding py_range_def
    using gaussian_loop_upt[of "nat ?N" "replicate (nat ?N) 0" ?N "real_of_int ?N * fraction"]
    by (simp only: e length_replicate le_refl drop_replicate diff_self_eq_0 replicate_0 append_Nil2)
  have expmap: "map exp (map (\<lambda>i. complex_of_real (?e i)) ?xs)
                  = map (\<lambda>i. complex_of_real (exp (?e i))) ?xs"
    by (simp add: exp_of_real)
  have Zdef: "calculate_normalization \<lparr>basis = ?b, data = map (\<lambda>i. complex_of_real (exp (?e i))) ?xs\<rparr> = Z"
    unfolding Z_def by (rule calculate_normalization_of_real)
  have Zpos: "0 < Z"
    unfolding Z_def
  proof (rule sum_list_pos_real)
    show "?xs \<noteq> []" using assms(2) by simp
  next
    fix x show "0 < (exp (?e x))\<^sup>2" by simp
  qed
  have div: "times_scalar_inv (map (\<lambda>i. complex_of_real (exp (?e i))) ?xs) (sqrt Z)
               = map (\<lambda>i. complex_of_real (exp (?e i) / sqrt Z)) ?xs"
    by (simp add: times_scalar_inv_def)
  have result: "get_gaussian_state lib system config fraction
          = Inr \<lparr>basis = ?b, data = map (\<lambda>i. complex_of_real (exp (?e i) / sqrt Z)) ?xs\<rparr>"
    by (simp add: get_gaussian_state_def assms(1) Let_def np_zeros_def n nonneg loop
          expmap Zdef div del: map_map of_int_mult)
  have unit: "calculate_normalization
                \<lparr>basis = ?b, data = map (\<lambda>i. complex_of_real (exp (?e i) / sqrt Z)) ?xs\<rparr> = 1"
    unfolding calculate_normalization_of_real
    by (rule normalized_sum[OF Zpos]) (simp add: Z_def)
  show ?thesis
    using result n Zpos unit Z_def by auto
qed

theorem get_gaussian_state_normalized_witness:
  "\<exists>st. get_gaussian_state recording_library unit_system small_config 1 = Inr st
         \<and> length (data st) = 2 \<and> calculate_normalization st = 1"
proof -
  obtain p where p: "get_extended_interpolated_potential recording_library unit_system
                       (shape small_config) (resolution small_config) = Inr p"
    using recording_library_builds[of "resolution small_config"]
    by (auto simp: small_config_def)
  have h2: "0 < resolution small_config * shape small_config"
    by (simp add: small_config_def)
  have h3: "(0::real) < 1" by simp
  show ?thesis
    using get_gaussian_state_normalized[OF p h2 h3]
    by (auto simp: small_config_def)
qed

subsection \<open>Hamiltonian assembler and band solver\<close>

text \<open>
  Claim C8. Called without a Bloch fraction (None), \<open>_get_full_hamiltonian\<close>
  returns what it returns for the zero vector \<open>[0]\<close>, for every system,
  shape and resolution and whatever the library computes.
\<close>

theorem get_full_hamiltonian_default_bloch_fraction:
  "get_full_hamiltonian lib system shape0 resolution0 None
     = get_full_hamiltonian lib system shape0 resolution0 (Some [0])"
  by (simp add: get_full_hamiltonian_def)

text \<open>
  Claim C10. The generator that \<open>get_bloch_wavefunctions\<close> hands to the
  solver does not depend on \<open>config.shape\<close>: it is
  \<open>_get_full_hamiltonian\<close> at shape \<open>(1,)\<close> and \<open>config.resolution\<close>,
  and every Hamiltonian it returns was assembled by
  \<open>total_surface_hamiltonian\<close> from a potential on the fundamental position
  basis of one unit cell, of \<open>resolution\<close> points.
\<close>

theorem hamiltonian_generator_single_cell:
  "hamiltonian_generator lib system (config\<lparr>shape := s\<rparr>) = hamiltonian_generator lib system config
   \<and> hamiltonian_generator lib system config bloch_fraction
       = get_full_hamiltonian lib system 1 (resolution config) (Some bloch_fraction)
   \<and> (\<forall>h. hamiltonian_generator lib system config bloch_fraction = Inr h \<longrightarrow>
        (\<exists>converted. total_surface_hamiltonian lib converted (mass system) bloch_fraction = Inr h
           \<and> basis converted = TupleBasis (FundamentalPositionBasis
                 [sqrt 3 * lattice_constant system / 2 * 1] (resolution config * 1))
           \<and> tuple_n (basis converted) = resolution config))"
proof -
  have a: "hamiltonian_generator lib system (config\<lparr>shape := s\<rparr>)
             = hamiltonian_generator lib system config"
    by (rule ext) (simp add: hamiltonian_generator_def)
  have b: "hamiltonian_generator lib system config bloch_fraction
             = get_full_hamiltonian lib system 1 (resolution config) (Some bloch_fraction)"
    by (simp add: hamiltonian_generator_def)
  have c: "\<exists>converted. total_surface_hamiltonian lib converted (mass system) bloch_fraction = Inr h
           \<and> basis converted = TupleBasis (FundamentalPositionBasis
                 [sqrt 3 * lattice_constant system / 2 * 1] (resolution config * 1))
           \<and> tuple_n (basis converted) = resolution config"
    if h: "hamiltonian_generator lib system config bloch_fraction = Inr h" for h
  proof -
    from h obtain p where p: "get_extended_interpolated_potential lib system 1 (resolution config) = Inr p"
      by (auto simp: hamiltonian_generator_def get_full_hamiltonian_def split: sum.splits)
    from h p obtain converted where
      cv: "convert_potential_to_basis lib p (stacked_basis_as_fundamental_position_basis (basis p))
             = Inr converted"
      and tsh: "total_surface_hamiltonian lib converted (mass system) bloch_fraction = Inr h"
      by (auto simp: hamiltonian_generator_def get_full_hamiltonian_def split: sum.splits)
    from cv have "basis converted = stacked_basis_as_fundamental_position_basis (basis p)"
      by (auto simp: convert_potential_to_basis_def split: sum.splits)
    with get_extended_interpolated_potential_basis(1)[OF p]
    have "basis converted = TupleBasis (FundamentalPositionBasis
                 [sqrt 3 * lattice_constant system / 2 * 1] (resolution config * 1))"
      by simp
    with tsh show ?thesis by auto
  qed
  from a b c show ?thesis by blast
qed

theorem hamiltonian_generator_single_cell_witness:
  "hamiltonian_generator recording_library unit_system (small_config\<lparr>shape := 7\<rparr>)
     = hamiltonian_generator recording_library unit_system small_config
   \<and> (\<exists>converted h. hamiltonian_generator recording_library unit_system small_config [0] = Inr h
        \<and> total_surface_hamiltonian recording_library converted (mass unit_system) [0] = Inr h
        \<and> tuple_n (basis converted) = 2)"
proof -
  obtain h where h: "hamiltonian_generator recording_library unit_system small_config [0] = Inr h"
    by (simp add: hamiltonian_generator_def get_full_hamiltonian_def
        get_extended_interpolated_potential_def get_interpolated_potential_def
        get_potential_def convert_potential_to_basis_def recording_library_def
        py_truediv_def Let_def small_config_def)
  note t = hamiltonian_generator_single_cell[where lib = recording_library
        and system = unit_system and config = small_config and s = 7 and bloch_fraction = "[0]"]
  from t have a: "hamiltonian_generator recording_library unit_system (small_config\<lparr>shape := 7\<rparr>)
                    = hamiltonian_generator recording_library unit_system small_config"
    by blast
  from t h obtain converted where
    c: "total_surface_hamiltonian recording_library converted (mass unit_system) [0] = Inr h"
       "tuple_n (basis converted) = resolution small_config"
    by blast
  from c(2) have "tuple_n (basis converted) = 2"
    by (simp add: small_config_def)
  with a h c(1) show ?thesis by blast
qed


subsection \<open>Gaussian fit\<close>

lemma get_gaussian_fit_second_time:
  assumes "curve_fit gauss (map real [0..<length ts]) (map cmod ds)
             = Inr ((a, b), ((c00, c01), (c10, c11)))"
    and "1 < length ts"
  shows "get_gaussian_fit curve_fit \<lparr>basis_times = ts, value_data = ds\<rparr>
           = Inr (a, sqrt c00, b * ts ! 1, sqrt c11 * ts ! 1)"
  using assms by (simp add: get_gaussian_fit_def get_measured_data_abs_def Let_def)

text \<open>
  Claim C2. The decay time and its standard error are multiplied by
  \<open>times[1]\<close>, the second time point, which is the grid spacing only when
  the first time is zero. On the evenly spaced grid \<open>1, 2, 3, 4\<close> (spacing
  1, first time 1) with a fit of amplitude 2, decay 10 and unit variances, the
  code returns decay time 20 and standard error 2, where the spacing gives 10
  and 1.
\<close>

theorem get_gaussian_fit_offset_grid:
  "get_gaussian_fit fixed_curve_fit \<lparr>basis_times = [1, 2, 3, 4], value_data = [2, 2, 2, 2]\<rparr>
     = Inr (2, 1, 20, 2)"
  by (simp add: get_gaussian_fit_def get_measured_data_abs_def Let_def fixed_curve_fit_def)

end
